theory Spec2Isabelle
  imports Main "HOL-Library.Sublist"
begin

section \<open>Podcast episode fetcher: a shallow embedding of \<open>scripts/fetch_podcasts.py\<close>\<close>

text \<open>
  The script reads a podcast RSS feed, extracts one episode record per feed item,
  skips the episodes whose guid is already recorded, and writes one Quarto post per new
  episode. This theory embeds the slug generator, the episode extractor, the post
  renderer and the loop of the orchestrator, and proves properties of them.

  Conventions of the embedding.
  \<^item> A Python \<open>str\<close> is a \<open>string\<close>: a list of 8-bit characters, each read as the
    Unicode code point of the same number (U+0000 to U+00FF). The character classes of
    \<open>re\<close> and \<open>str\<close> are written out for this range; code points above U+00FF are
    outside the model.
  \<^item> Python's \<open>None\<close> is \<open>None\<close> of an option type.
  \<^item> An exception is a value of \<open>py_error\<close>; a function that can raise returns
    \<open>py_error + 'a\<close>, with \<open>Inl\<close> for the exception.
  \<^item> The clock and the \<open>datetime\<close> library, the network and the faults of the
    operating system are parameters (\<open>clock\<close>, \<open>world\<close>); the file system is explicit
    state.
\<close>

subsection \<open>Characters and strings\<close>

definition code_point :: "char \<Rightarrow> nat" where
  "code_point c = of_char c"

definition in_range :: "nat \<Rightarrow> nat \<Rightarrow> char \<Rightarrow> bool" where
  "in_range lo hi c = (lo \<le> code_point c \<and> code_point c \<le> hi)"

text \<open>The characters that \<open>str.lower\<close> changes: A-Z and the upper-case letters of Latin-1
  (U+00C0 to U+00DE without the multiplication sign U+00D7). Each is mapped 32 up.\<close>

definition is_upper :: "char \<Rightarrow> bool" where
  "is_upper c = (in_range 0x41 0x5A c \<or> in_range 0xC0 0xD6 c \<or> in_range 0xD8 0xDE c)"

definition lower_char :: "char \<Rightarrow> char" where
  "lower_char c = (if is_upper c then char_of (code_point c + 32) else c)"

definition py_lower :: "string \<Rightarrow> string" where
  "py_lower s = map lower_char s"

text \<open>\<open>str.isalnum\<close>: digits, letters, and the Latin-1 letters and numerals
  (feminine and masculine ordinal, micro sign, superscript digits, vulgar fractions,
  accented letters).\<close>

definition is_alnum :: "char \<Rightarrow> bool" where
  "is_alnum c = (in_range 0x30 0x39 c \<or> in_range 0x41 0x5A c \<or> in_range 0x61 0x7A c
     \<or> in_range 0xAA 0xAA c \<or> in_range 0xB2 0xB3 c \<or> in_range 0xB5 0xB5 c
     \<or> in_range 0xB9 0xBA c \<or> in_range 0xBC 0xBE c \<or> in_range 0xC0 0xD6 c
     \<or> in_range 0xD8 0xF6 c \<or> in_range 0xF8 0xFF c)"

text \<open>The class \<open>\w\<close> of a \<open>str\<close> pattern: alphanumeric characters and the underscore.\<close>

definition is_word :: "char \<Rightarrow> bool" where
  "is_word c = (is_alnum c \<or> c = CHR ''_'')"

text \<open>The class \<open>\s\<close> of a \<open>str\<close> pattern, which is also what \<open>str.strip()\<close> removes.\<close>

definition is_space :: "char \<Rightarrow> bool" where
  "is_space c = (in_range 0x09 0x0D c \<or> in_range 0x1C 0x20 c \<or> in_range 0x85 0x85 c
     \<or> in_range 0xA0 0xA0 c)"

text \<open>The class \<open>[a-zA-Z0-9]\<close>.\<close>

definition is_ascii_alnum :: "char \<Rightarrow> bool" where
  "is_ascii_alnum c = (in_range 0x30 0x39 c \<or> in_range 0x41 0x5A c \<or> in_range 0x61 0x7A c)"

text \<open>\<open>s.strip(chars)\<close> and \<open>s.strip()\<close>: drop the characters of the class at both ends.\<close>

definition strip_chars :: "(char \<Rightarrow> bool) \<Rightarrow> string \<Rightarrow> string" where
  "strip_chars P s = rev (dropWhile P (rev (dropWhile P s)))"

definition py_strip :: "string \<Rightarrow> string" where
  "py_strip s = strip_chars is_space s"

text \<open>\<open>s.partition(sep)\<close> for a non-empty \<open>sep\<close>: the text before the first occurrence of
  \<open>sep\<close>, whether there is one, and the text after it.\<close>

fun py_partition :: "string \<Rightarrow> string \<Rightarrow> string \<times> bool \<times> string" where
  "py_partition sep [] = ([], False, [])"
| "py_partition sep (c # cs) =
     (if prefix sep (c # cs) then ([], True, drop (length sep) (c # cs))
      else (case py_partition sep cs of (a, found, b) \<Rightarrow> (c # a, found, b)))"

definition text_before :: "string \<Rightarrow> string \<Rightarrow> string" where
  "text_before sep s = fst (py_partition sep s)"

definition text_after :: "string \<Rightarrow> string \<Rightarrow> string" where
  "text_after sep s = snd (snd (py_partition sep s))"

lemma py_partition_shorter:
  "py_partition sep s = (a, True, b) \<Longrightarrow> sep \<noteq> [] \<Longrightarrow> length b < length s"
proof (induction s arbitrary: a)
  case Nil
  then show ?case by simp
next
  case (Cons c cs)
  then show ?case
    by (cases "prefix sep (c # cs)") (auto split: prod.splits)
qed

text \<open>\<open>s.split(sep)\<close> for a non-empty \<open>sep\<close>: the pieces between the occurrences of
  \<open>sep\<close>, found from the left without overlap.\<close>

function py_split :: "string \<Rightarrow> string \<Rightarrow> string list" where
  "py_split sep s =
     (case py_partition sep s of
        (a, found, b) \<Rightarrow> if found \<and> sep \<noteq> [] then a # py_split sep b else [s])"
  by pat_completeness auto
termination
  by (relation "measure (\<lambda>(sep, s). length s)") (auto dest: py_partition_shorter [OF sym])

declare py_split.simps [simp del]

text \<open>\<open>str.title()\<close> on ASCII text: the first letter of every run of letters in upper
  case, the others in lower case. It is applied only to the constants of the keyword
  table, which are ASCII; other characters are left as they are.\<close>

definition is_ascii_letter :: "char \<Rightarrow> bool" where
  "is_ascii_letter c = (in_range 0x41 0x5A c \<or> in_range 0x61 0x7A c)"

definition upper_ascii :: "char \<Rightarrow> char" where
  "upper_ascii c = (if in_range 0x61 0x7A c then char_of (code_point c - 32) else c)"

definition lower_ascii :: "char \<Rightarrow> char" where
  "lower_ascii c = (if in_range 0x41 0x5A c then char_of (code_point c + 32) else c)"

fun title_from :: "bool \<Rightarrow> string \<Rightarrow> string" where
  "title_from in_run [] = []"
| "title_from in_run (c # cs) =
     (if is_ascii_letter c
      then (if in_run then lower_ascii c else upper_ascii c) # title_from True cs
      else c # title_from False cs)"

definition py_title :: "string \<Rightarrow> string" where
  "py_title s = title_from False s"

subsection \<open>The slug generator (\<open>slugify\<close>, lines 32-37)\<close>

definition is_separator :: "char \<Rightarrow> bool" where
  "is_separator c = (c = CHR ''-'' \<or> is_space c)"

lemma length_dropWhile_less: "length (dropWhile P xs) < Suc (length xs)"
  by (simp add: le_imp_less_Suc length_dropWhile_le)

text \<open>\<open>re.sub(r'[-\s]+', '-', text)\<close>: every maximal run of hyphens and whitespace becomes
  one hyphen.\<close>

function sub_separators :: "string \<Rightarrow> string" where
  "sub_separators [] = []"
| "sub_separators (c # cs) =
     (if is_separator c then CHR ''-'' # sub_separators (dropWhile is_separator cs)
      else c # sub_separators cs)"
  by pat_completeness auto
termination
  by (relation "measure length") (simp_all add: length_dropWhile_less)

text \<open>\<open>re.sub(r'[^\w\s-]', '', text)\<close> deletes every character outside the three classes,
  which is a filter.\<close>

definition slugify :: "string \<Rightarrow> string" where
  "slugify text =
     (let text = py_lower text;
          text = filter (\<lambda>c. is_word c \<or> is_space c \<or> c = CHR ''-'') text;
          text = sub_separators text
      in strip_chars (\<lambda>c. c = CHR ''-'') text)"

subsection \<open>Feed items (\<open>xml.etree.ElementTree.Element\<close>)\<close>

text \<open>An element has a tag, its attributes, the text before its first child (\<open>None\<close>
  when there is none, as for \<open><title/>\<close>) and its children. A tag in a namespace is
  written as ElementTree writes it, \<open>{uri}local\<close>.\<close>

datatype element =
  Element (el_tag: string) (el_attrib: "(string \<times> string) list")
    (el_text: "string option") (el_children: "element list")

text \<open>\<open>e.find(tag)\<close>: the first child with the tag. \<open>e.get(key, default)\<close>: the attribute.\<close>

definition el_find :: "element \<Rightarrow> string \<Rightarrow> element option" where
  "el_find e t = List.find (\<lambda>c. el_tag c = t) (el_children e)"

definition el_get :: "element \<Rightarrow> string \<Rightarrow> string \<Rightarrow> string" where
  "el_get e k d = (case map_of (el_attrib e) k of Some v \<Rightarrow> v | None \<Rightarrow> d)"

text \<open>The names \<open>content:encoded\<close> and \<open>itunes:image\<close> under the \<open>namespaces\<close> table of
  lines 81-85.\<close>

definition content_encoded :: string where
  "content_encoded = ''{http://purl.org/rss/1.0/modules/content/}encoded''"

definition itunes_image :: string where
  "itunes_image = ''{http://www.itunes.com/dtds/podcast-1.0.dtd}image''"

subsection \<open>Exceptions, the clock and episode records\<close>

datatype py_error =
  TypeError | AttributeError | IndexError | RequestException
  | FileExistsError | NotADirectoryError | IsADirectoryError | FileNotFoundError
  | PermissionError | OSError

record datetime =
  year :: nat
  month :: nat
  day :: nat
  hour :: nat
  minute :: nat
  second :: nat

text \<open>The \<open>datetime\<close> library as the process sees it: \<open>strptime text format\<close> is \<open>None\<close>
  where \<open>datetime.strptime\<close> raises \<open>ValueError\<close>; \<open>strftime dt format\<close> is
  \<open>dt.strftime(format)\<close>; \<open>now\<close> is the reading of \<open>datetime.now()\<close>.\<close>

record clock =
  strptime :: "string \<Rightarrow> string \<Rightarrow> datetime option"
  strftime :: "datetime \<Rightarrow> string \<Rightarrow> string"
  now :: datetime

text \<open>The dictionary \<open>episode\<close> of \<open>extract_episode_info\<close>. The title and the guid are the
  \<open>text\<close> of an element and so may be \<open>None\<close>.\<close>

record episode =
  title :: "string option"
  date :: string
  description :: string
  guid :: "string option"
  spotify_url :: string
  episode_id :: "string option"
  image_url :: string

subsection \<open>The episode extractor (\<open>extract_episode_info\<close>, lines 78-167)\<close>

text \<open>Line 90.\<close>

definition extract_title :: "element \<Rightarrow> string option" where
  "extract_title item =
     (case el_find item ''title'' of
        Some t \<Rightarrow> el_text t
      | None \<Rightarrow> Some ''Untitled Episode'')"

text \<open>Lines 92-107. \<open>datetime.strptime\<close> raises \<open>TypeError\<close>, which no handler here
  catches, when its first argument is \<open>None\<close>.\<close>

definition extract_date :: "clock \<Rightarrow> element \<Rightarrow> py_error + string" where
  "extract_date clk item =
     (case el_find item ''pubDate'' of
        Some pub_date \<Rightarrow>
          (case el_text pub_date of
             None \<Rightarrow> Inl TypeError
           | Some t \<Rightarrow>
               (case strptime clk t ''%a, %d %b %Y %H:%M:%S %Z'' of
                  Some dt \<Rightarrow> Inr (strftime clk dt ''%Y-%m-%d'')
                | None \<Rightarrow>
                    (case strptime clk t ''%a, %d %b %Y %H:%M:%S %z'' of
                       Some dt \<Rightarrow> Inr (strftime clk dt ''%Y-%m-%d'')
                     | None \<Rightarrow> Inr (strftime clk (now clk) ''%Y-%m-%d''))))
      | None \<Rightarrow> Inr (strftime clk (now clk) ''%Y-%m-%d''))"

text \<open>\<open>re.sub(r'<[^>]+>', '', text)\<close>: a \<open><\<close>, at least one character other than \<open>>\<close>,
  and the next \<open>>\<close> are deleted; the search goes on after it.\<close>

function strip_tags :: "string \<Rightarrow> string" where
  "strip_tags [] = []"
| "strip_tags (c # cs) =
     (if c = CHR ''<'' \<and> takeWhile (\<lambda>x. x \<noteq> CHR ''>'') cs \<noteq> []
         \<and> dropWhile (\<lambda>x. x \<noteq> CHR ''>'') cs \<noteq> []
      then strip_tags (tl (dropWhile (\<lambda>x. x \<noteq> CHR ''>'') cs))
      else c # strip_tags cs)"
  by pat_completeness auto
termination
  by (relation "measure length")
    (auto intro: le_less_trans [OF diff_le_self] simp: length_dropWhile_less)

text \<open>Lines 109-123; \<open>x.text or ""\<close> is the text, or the empty string for \<open>None\<close>.\<close>

definition text_or_empty :: "element \<Rightarrow> string" where
  "text_or_empty e = (case el_text e of Some t \<Rightarrow> t | None \<Rightarrow> [])"

definition extract_description :: "element \<Rightarrow> string" where
  "extract_description item =
     (let d = (case el_find item ''description'' of
                 Some desc \<Rightarrow> text_or_empty desc
               | None \<Rightarrow>
                   (case el_find item content_encoded of
                      Some ce \<Rightarrow> text_or_empty ce
                    | None \<Rightarrow> []))
      in py_strip (strip_tags d))"

text \<open>Lines 125-127.\<close>

definition extract_guid :: "element \<Rightarrow> string option" where
  "extract_guid item =
     (case el_find item ''guid'' of
        Some g \<Rightarrow> el_text g
      | None \<Rightarrow> Some [])"

text \<open>Lines 129-133: \<open>link.text\<close> counts when it is neither \<open>None\<close> nor empty.\<close>

definition extract_spotify_url :: "element \<Rightarrow> string" where
  "extract_spotify_url item =
     (case el_find item ''link'' of
        Some link \<Rightarrow> text_or_empty link
      | None \<Rightarrow> [])"

text \<open>\<open>re.search(r'/episode/([a-zA-Z0-9]+)', s)\<close>, group 1 of the match: at the leftmost
  place where \<open>/episode/\<close> is followed by a letter or digit, the longest run of letters
  and digits.\<close>

definition episode_path :: string where
  "episode_path = ''/episode/''"

fun re_search_episode :: "string \<Rightarrow> string option" where
  "re_search_episode [] = None"
| "re_search_episode (c # cs) =
     (if prefix episode_path (c # cs)
         \<and> takeWhile is_ascii_alnum (drop (length episode_path) (c # cs)) \<noteq> []
      then Some (takeWhile is_ascii_alnum (drop (length episode_path) (c # cs)))
      else re_search_episode cs)"

text \<open>Python's truth value of an optional string: \<open>None\<close> and \<open>""\<close> are false.\<close>

definition truthy :: "string option \<Rightarrow> bool" where
  "truthy x = (case x of None \<Rightarrow> False | Some s \<Rightarrow> s \<noteq> [])"

text \<open>\<open>xs[1]\<close>, which raises \<open>IndexError\<close> on a list of fewer than two elements.\<close>

definition second_item :: "'a list \<Rightarrow> py_error + 'a" where
  "second_item xs = (case xs of _ # x # _ \<Rightarrow> Inr x | _ \<Rightarrow> Inl IndexError)"

definition spotify_marker :: string where
  "spotify_marker = ''spotify:episode:''"

text \<open>Lines 135-157.\<close>

definition enclosure_id :: "element \<Rightarrow> string option" where
  "enclosure_id item =
     (case el_find item ''enclosure'' of
        Some enclosure \<Rightarrow> re_search_episode (el_get enclosure ''url'' [])
      | None \<Rightarrow> None)"

definition extract_episode_id :: "element \<Rightarrow> string option \<Rightarrow> py_error + string option" where
  "extract_episode_id item g =
     (let eid = enclosure_id item
      in if \<not> truthy eid \<and> truthy g then
           (case g of
              None \<Rightarrow> Inr eid
            | Some gs \<Rightarrow>
                if sublist spotify_marker gs
                then map_sum id Some (second_item (py_split spotify_marker gs))
                else (case re_search_episode gs of
                        Some m \<Rightarrow> Inr (Some m)
                      | None \<Rightarrow> Inr eid))
         else Inr eid)"

text \<open>Lines 159-165.\<close>

definition extract_image_url :: "element \<Rightarrow> string" where
  "extract_image_url item =
     (case el_find item itunes_image of
        Some img \<Rightarrow> el_get img ''href'' []
      | None \<Rightarrow> [])"

definition extract_episode_info :: "clock \<Rightarrow> element \<Rightarrow> py_error + episode" where
  "extract_episode_info clk item =
     (case extract_date clk item of
        Inl e \<Rightarrow> Inl e
      | Inr d \<Rightarrow>
          (case extract_episode_id item (extract_guid item) of
             Inl e \<Rightarrow> Inl e
           | Inr eid \<Rightarrow>
               Inr \<lparr>title = extract_title item, date = d,
                    description = extract_description item, guid = extract_guid item,
                    spotify_url = extract_spotify_url item, episode_id = eid,
                    image_url = extract_image_url item\<rparr>))"

subsection \<open>The file system and the outside world\<close>

text \<open>A path is the list of its components (\<open>pathlib.Path\<close>); the empty path is the
  working directory. The file system is the set of its directories and the contents of
  its files.\<close>

type_synonym path = "string list"

record filesystem =
  dirs :: "path set"
  files :: "path \<rightharpoonup> string"

text \<open>What the outside answers: \<open>http_get url\<close> is the body that
  \<open>requests.get(url, timeout=30)\<close> returns after \<open>raise_for_status()\<close>, or the exception
  raised; \<open>fault p\<close> is the error, if any, with which the operating system refuses to
  create or write \<open>p\<close> (permissions, a full disk).\<close>

record world =
  http_get :: "string \<Rightarrow> py_error + string"
  fault :: "path \<Rightarrow> py_error option"

text \<open>\<open>p.mkdir(parents=True, exist_ok=True)\<close>.\<close>

definition mkdir_parents :: "world \<Rightarrow> filesystem \<Rightarrow> path \<Rightarrow> py_error + filesystem" where
  "mkdir_parents w fs p =
     (case fault w p of
        Some e \<Rightarrow> Inl e
      | None \<Rightarrow>
          if files fs p \<noteq> None then Inl FileExistsError
          else if list_ex (\<lambda>q. files fs q \<noteq> None) (prefixes p) then Inl NotADirectoryError
          else Inr (fs\<lparr>dirs := dirs fs \<union> set (prefixes p)\<rparr>))"

text \<open>\<open>open(p, 'w')\<close> and \<open>f.write(data)\<close>: the file is created or overwritten. A write
  that fails leaves the file system as it was.\<close>

definition write_file :: "world \<Rightarrow> filesystem \<Rightarrow> path \<Rightarrow> string \<Rightarrow> py_error + filesystem" where
  "write_file w fs p data =
     (case fault w p of
        Some e \<Rightarrow> Inl e
      | None \<Rightarrow>
          if p \<in> dirs fs then Inl IsADirectoryError
          else if files fs (butlast p) \<noteq> None then Inl NotADirectoryError
          else if butlast p \<notin> dirs fs then Inl FileNotFoundError
          else Inr (fs\<lparr>files := (files fs)(p \<mapsto> data)\<rparr>))"

text \<open>\<open>p / name\<close> for a name without a slash: an empty name adds nothing.
  \<open>str(p)\<close> joins the components.\<close>

definition path_div :: "path \<Rightarrow> string \<Rightarrow> path" where
  "path_div p name = (if name = [] then p else p @ [name])"

fun path_str :: "path \<Rightarrow> string" where
  "path_str [] = ''.''"
| "path_str [x] = x"
| "path_str (x # y # ys) = x @ ''/'' @ path_str (y # ys)"

definition SPOTIFY_SHOW_ID :: string where
  "SPOTIFY_SHOW_ID = ''43CSCODQFQkZ05u3Up5OD6''"

definition POSTS_DIR :: path where
  "POSTS_DIR = [''content'', ''podcasts'', ''posts'']"

subsection \<open>The image download (\<open>download_image\<close>, lines 170-186)\<close>

text \<open>The handler of line 184 catches \<open>requests.RequestException\<close> only; any other
  exception of the block leaves the function.\<close>

definition except_request ::
  "py_error \<Rightarrow> filesystem \<Rightarrow> (py_error + bool) \<times> filesystem" where
  "except_request e fs = (if e = RequestException then (Inr False, fs) else (Inl e, fs))"

definition download_image ::
  "world \<Rightarrow> filesystem \<Rightarrow> string \<Rightarrow> path \<Rightarrow> (py_error + bool) \<times> filesystem" where
  "download_image w fs url filepath =
     (if url = [] then (Inr False, fs)
      else
        (case http_get w url of
           Inl e \<Rightarrow> except_request e fs
         | Inr content \<Rightarrow>
             (case mkdir_parents w fs (butlast filepath) of
                Inl e \<Rightarrow> except_request e fs
              | Inr fs1 \<Rightarrow>
                  (case write_file w fs1 filepath content of
                     Inl e \<Rightarrow> except_request e fs1
                   | Inr fs2 \<Rightarrow> (Inr True, fs2)))))"

subsection \<open>The post renderer (\<open>create_episode_post\<close>, lines 189-276)\<close>

text \<open>Lines 199-204.\<close>

definition show_embed :: string where
  "show_embed =
     ''https://open.spotify.com/embed/show/'' @ SPOTIFY_SHOW_ID @ ''/video?utm_source=generator''"

definition embed_url :: "string option \<Rightarrow> string" where
  "embed_url eid =
     (case eid of
        None \<Rightarrow> show_embed
      | Some e \<Rightarrow>
          if e \<noteq> [] then ''https://open.spotify.com/embed/episode/'' @ e @ ''?utm_source=generator''
          else show_embed)"

text \<open>Lines 212-215.\<close>

definition summary :: "string \<Rightarrow> string" where
  "summary desc =
     (let s = py_strip (take 200 desc)
      in if length desc > 200 then s @ ''...'' else s)"

text \<open>Lines 217-234.\<close>

definition topic_keywords :: "string list" where
  "topic_keywords =
     [''data science'', ''machine learning'', ''artificial intelligence'',
      ''health metrics'', ''epidemiology'', ''public health'',
      ''infectious disease'', ''statistics'', ''research'']"

definition key_topics :: "string \<Rightarrow> string list" where
  "key_topics desc =
     (let found = map py_title (filter (\<lambda>keyword. sublist keyword (py_lower desc)) topic_keywords)
      in if found = [] then [''Health Metrics'', ''Data Science''] else found)"

text \<open>Lines 236-267: the text of \<open>index.qmd\<close>, each line ended by a newline.\<close>

definition newline :: char where
  "newline = CHR 0x0A"

definition quoted :: "string \<Rightarrow> string" where
  "quoted s = [CHR 0x22] @ s @ [CHR 0x22]"

definition unlines :: "string list \<Rightarrow> string" where
  "unlines ls = concat (map (\<lambda>l. l @ [newline]) ls)"

definition iframe :: "string \<Rightarrow> string" where
  "iframe url =
     ''<iframe data-testid='' @ quoted ''embed-iframe''
     @ '' style='' @ quoted ''border-radius:12px''
     @ '' src='' @ quoted url
     @ '' width='' @ quoted ''624'' @ '' height='' @ quoted ''351''
     @ '' frameBorder='' @ quoted ''0'' @ '' allowfullscreen='' @ quoted []
     @ '' allow='' @ quoted
         ''autoplay; clipboard-write; encrypted-media; fullscreen; picture-in-picture''
     @ '' loading='' @ quoted ''lazy'' @ ''></iframe>''"

definition qmd_content :: "string \<Rightarrow> episode \<Rightarrow> string" where
  "qmd_content t ep =
     unlines
       ([''---'',
         ''title: '' @ quoted t,
         ''date: '' @ [CHR 0x27] @ date ep @ [CHR 0x27],
         ''image: featured.png'',
         ''slug: podcast-'' @ take 50 (slugify t),
         ''toc: true'',
         ''categories:'',
         ''  - health metrics'',
         ''  - data science'',
         ''summary: '' @ quoted (summary (description ep)),
         ''execute: '',
         ''  eval: false'',
         ''---'',
         [],
         [],
         iframe (embed_url (episode_id ep)),
         [],
         [],
         ''## Episode Overview'',
         [],
         description ep,
         [],
         ''## Key Topics Discussed'',
         []]
        @ map (\<lambda>topic. ''- '' @ topic) (take 5 (key_topics (description ep)))
        @ [[], []])"

text \<open>Lines 191-196: the directory of the post, named by the first 50 characters of the
  slug of the title.\<close>

definition episode_dir :: "string \<Rightarrow> path" where
  "episode_dir t = path_div POSTS_DIR (take 50 (slugify t))"

text \<open>The function. \<open>slugify(None)\<close> raises \<open>AttributeError\<close> (\<open>None\<close> has no \<open>lower\<close>).
  The result is the returned \<open>str(episode_dir)\<close> or the exception, and the file system
  as the call leaves it.\<close>

definition create_episode_post ::
  "world \<Rightarrow> filesystem \<Rightarrow> episode \<Rightarrow> (py_error + string) \<times> filesystem" where
  "create_episode_post w fs ep =
     (case title ep of
        None \<Rightarrow> (Inl AttributeError, fs)
      | Some t \<Rightarrow>
          (case mkdir_parents w fs (episode_dir t) of
             Inl e \<Rightarrow> (Inl e, fs)
           | Inr fs1 \<Rightarrow>
               (case (if image_url ep \<noteq> []
                      then download_image w fs1 (image_url ep)
                             (path_div (episode_dir t) ''featured.png'')
                      else (Inr False, fs1)) of
                  (Inl e, fs2) \<Rightarrow> (Inl e, fs2)
                | (Inr has_image, fs2) \<Rightarrow>
                    (case write_file w fs2 (path_div (episode_dir t) ''index.qmd'')
                            (qmd_content t ep) of
                       Inl e \<Rightarrow> (Inl e, fs2)
                     | Inr fs3 \<Rightarrow> (Inr (path_str (episode_dir t)), fs3)))))"

subsection \<open>The loop of the orchestrator (\<open>main\<close>, lines 304-328)\<close>

text \<open>What the loop prints: the three lines that announce a new episode (title, date,
  guid), the line of a created post, and the line of a failed one. The lines printed
  inside the renderer are not modelled.\<close>

datatype log_line =
  Processing "string option" string "string option"
  | Created
  | Failed py_error

record run_state =
  processed_episodes :: "string option set"
  new_episodes :: "string option list"
  fs :: filesystem
  printed :: "log_line list"


text \<open>The loop over the items. \<open>extract_episode_info\<close> is called outside the
  \<open>try\<close>, so its exception ends the run; an exception of \<open>create_episode_post\<close> is caught
  by \<open>except Exception\<close> (lines 323-326).\<close>

fun main_loop :: "clock \<Rightarrow> world \<Rightarrow> run_state \<Rightarrow> element list \<Rightarrow> py_error + run_state" where
  "main_loop clk w st [] = Inr st"
| "main_loop clk w st (item # items) =
     (case extract_episode_info clk item of
        Inl e \<Rightarrow> Inl e
      | Inr ep \<Rightarrow>
          if guid ep \<in> processed_episodes st then main_loop clk w st items
          else
            (case create_episode_post w (fs st) ep of
               (Inr post_dir, disk) \<Rightarrow>
                 main_loop clk w
                   (st\<lparr>new_episodes := new_episodes st @ [guid ep],
                       processed_episodes := insert (guid ep) (processed_episodes st),
                       fs := disk,
                       printed := printed st @ [Processing (title ep) (date ep) (guid ep), Created]\<rparr>)
                   items
             | (Inl e, disk) \<Rightarrow>
                 main_loop clk w
                   (st\<lparr>fs := disk,
                       printed := printed st @ [Processing (title ep) (date ep) (guid ep), Failed e]\<rparr>)
                   items))"


subsection \<open>Example inputs\<close>

text \<open>A clock for the examples: it parses one date with a named time zone and one
  with a numeric offset, formats a date as year-month-day, and reads 4 November 2026.\<close>

definition digit :: "nat \<Rightarrow> char" where
  "digit n = ''0123456789'' ! (n mod 10)"

definition example_clock :: clock where
  "example_clock =
     \<lparr>strptime = (\<lambda>t f.
        if t = ''Wed, 15 Jan 2026 10:00:00 GMT'' \<and> f = ''%a, %d %b %Y %H:%M:%S %Z''
        then Some \<lparr>year = 2026, month = 1, day = 15, hour = 10, minute = 0, second = 0\<rparr>
        else if t = ''Thu, 05 Mar 2026 23:30:00 +0100'' \<and> f = ''%a, %d %b %Y %H:%M:%S %z''
        then Some \<lparr>year = 2026, month = 3, day = 5, hour = 23, minute = 30, second = 0\<rparr>
        else None),
      strftime = (\<lambda>dt f.
        [digit (year dt div 1000), digit (year dt div 100), digit (year dt div 10),
         digit (year dt), CHR ''-'', digit (month dt div 10), digit (month dt), CHR ''-'',
         digit (day dt div 10), digit (day dt)]),
      now = \<lparr>year = 2026, month = 11, day = 4, hour = 12, minute = 0, second = 0\<rparr>\<rparr>"

text \<open>An \<open><item>\<close> with the given children, and a child without attributes.\<close>

definition item_with :: "element list \<Rightarrow> element" where
  "item_with cs = Element ''item'' [] None cs"

definition leaf :: "string \<Rightarrow> string option \<Rightarrow> element" where
  "leaf t x = Element t [] x []"

text \<open>A world for the examples: one image URL answers, every other request fails; the
  directory of the post titled \<open>Locked\<close> cannot be created. The disk is empty.\<close>

definition example_world :: world where
  "example_world =
     \<lparr>http_get = (\<lambda>url. if url = ''https://img.example/cover.png'' then Inr ''PNG''
                          else Inl RequestException),
      fault = (\<lambda>p. if p = POSTS_DIR @ [''locked''] then Some PermissionError else None)\<rparr>"

definition example_disk :: filesystem where
  "example_disk = \<lparr>dirs = {[]}, files = Map.empty\<rparr>"

definition example_episode :: "string \<Rightarrow> string \<Rightarrow> string \<Rightarrow> episode" where
  "example_episode t g url =
     \<lparr>title = Some t, date = ''2026-01-15'', description = ''About '' @ g,
      guid = Some g, spotify_url = [], episode_id = None, image_url = url\<rparr>"


section \<open>Properties\<close>

subsection \<open>Evaluation and general lemmas\<close>

lemmas char_eval =
  code_point_def in_range_def is_upper_def lower_char_def py_lower_def is_alnum_def
  is_word_def is_space_def is_ascii_alnum_def is_separator_def strip_chars_def py_strip_def
  char_of_eq_iff


lemma strip_chars_prefix: "prefix (strip_chars P s) (dropWhile P s)"
  using suffix_dropWhile [of P "rev (dropWhile P s)"]
  by (simp add: strip_chars_def suffix_to_prefix)




lemma py_partition_found:
  "sep \<noteq> [] \<Longrightarrow> fst (snd (py_partition sep s)) = sublist sep s"
proof (induction s)
  case Nil
  then show ?case by simp
next
  case (Cons c cs)
  then show ?case
    by (auto simp: sublist_Cons_right split: prod.splits)
qed

lemma py_partition_not_found:
  "\<not> fst (snd (py_partition sep s)) \<Longrightarrow> py_partition sep s = (s, False, [])"
  by (induction s) (auto split: prod.splits if_splits)

lemma py_partition_decompose:
  "fst (snd (py_partition sep s)) \<Longrightarrow> s = text_before sep s @ sep @ text_after sep s"
proof (induction s)
  case Nil
  then show ?case by simp
next
  case (Cons c cs)
  show ?case
  proof (cases "prefix sep (c # cs)")
    case True
    then have "py_partition sep (c # cs) = ([], True, drop (length sep) (c # cs))" by simp
    moreover from True obtain r where "c # cs = sep @ r" by (auto simp: prefix_def)
    ultimately show ?thesis by (simp add: text_before_def text_after_def)
  next
    case False
    with Cons show ?thesis
      by (auto simp: text_before_def text_after_def split: prod.splits)
  qed
qed

lemma text_before_absent:
  "sep \<noteq> [] \<Longrightarrow> \<not> sublist sep s \<Longrightarrow> text_before sep s = s"
  using py_partition_found [of sep s] py_partition_not_found [of sep s]
  by (simp add: text_before_def)

lemma second_item_py_split:
  assumes "sep \<noteq> []" "sublist sep s"
  shows "second_item (py_split sep s) = Inr (text_before sep (text_after sep s))"
proof -
  obtain a f b where p: "py_partition sep s = (a, f, b)" by (cases "py_partition sep s")
  with assms have f: "f" using py_partition_found [of sep s] by simp
  obtain a' f' b' where q: "py_partition sep b = (a', f', b')" by (cases "py_partition sep b")
  have "a' = text_before sep b" using q by (simp add: text_before_def)
  moreover have "\<not> f' \<Longrightarrow> text_before sep b = b"
    using q py_partition_not_found [of sep b] by (simp add: text_before_def)
  moreover have "text_after sep s = b" using p by (simp add: text_after_def)
  ultimately show ?thesis
    using p f q assms(1)
    by (subst py_split.simps, simp, subst py_split.simps, auto simp: second_item_def)
qed

lemma re_search_episode_nonempty: "re_search_episode s = Some x \<Longrightarrow> x \<noteq> []"
  by (induction s) (auto split: if_splits)

lemma spotify_marker_nonempty: "spotify_marker \<noteq> []"
  by (simp add: spotify_marker_def)

lemma enclosure_id_nonempty: "enclosure_id item \<noteq> Some []"
  using re_search_episode_nonempty
  by (auto simp: enclosure_id_def split: option.splits)

lemma extract_episode_id_value:
  "extract_episode_id item g =
     Inr (case enclosure_id item of
            Some x \<Rightarrow> Some x
          | None \<Rightarrow>
              (case g of
                 None \<Rightarrow> None
               | Some gs \<Rightarrow>
                   if gs = [] then None
                   else if sublist spotify_marker gs
                   then Some (text_before spotify_marker (text_after spotify_marker gs))
                   else re_search_episode gs))"
  using enclosure_id_nonempty [of item]
  by (auto simp: extract_episode_id_def truthy_def Let_def second_item_py_split
        spotify_marker_nonempty split: option.splits)

lemma re_search_episode_match:
  "re_search_episode s = Some x \<Longrightarrow>
     \<exists>pre suf. s = pre @ episode_path @ x @ suf \<and> x \<noteq> [] \<and> list_all is_ascii_alnum x
       \<and> (\<forall>c r. suf = c # r \<longrightarrow> \<not> is_ascii_alnum c)"
proof (induction s)
  case Nil
  then show ?case by simp
next
  case (Cons c cs)
  let ?rest = "drop (length episode_path) (c # cs)"
  show ?case
  proof (cases "prefix episode_path (c # cs) \<and> takeWhile is_ascii_alnum ?rest \<noteq> []")
    case True
    with Cons.prems have x: "x = takeWhile is_ascii_alnum ?rest" by simp
    from True obtain r where r: "c # cs = episode_path @ r" by (auto simp: prefix_def)
    then have "?rest = r" by simp
    with x have "r = x @ dropWhile is_ascii_alnum r" by simp
    with r have "c # cs = [] @ episode_path @ x @ dropWhile is_ascii_alnum r" by simp
    moreover have "x \<noteq> []" using True x by simp
    moreover have "list_all is_ascii_alnum x"
      using x by (auto simp: list_all_iff dest: set_takeWhileD)
    moreover have "\<forall>c' r'. dropWhile is_ascii_alnum r = c' # r' \<longrightarrow> \<not> is_ascii_alnum c'"
    proof (intro allI impI)
      fix c' r'
      assume e: "dropWhile is_ascii_alnum r = c' # r'"
      then have "dropWhile is_ascii_alnum r \<noteq> []" by simp
      from hd_dropWhile [OF this] e show "\<not> is_ascii_alnum c'" by simp
    qed
    ultimately show ?thesis by blast
  next
    case False
    with Cons.prems have "re_search_episode cs = Some x" by (simp split: if_splits)
    from Cons.IH [OF this] obtain pre suf where
      "cs = pre @ episode_path @ x @ suf" "x \<noteq> []" "list_all is_ascii_alnum x"
      "\<forall>c r. suf = c # r \<longrightarrow> \<not> is_ascii_alnum c" by blast
    then have "c # cs = (c # pre) @ episode_path @ x @ suf" by simp
    then show ?thesis
      using \<open>x \<noteq> []\<close> \<open>list_all is_ascii_alnum x\<close> \<open>\<forall>c r. suf = c # r \<longrightarrow> \<not> is_ascii_alnum c\<close>
      by blast
  qed
qed

lemma extract_episode_info_value:
  "extract_episode_info clk item =
     (case extract_date clk item of
        Inl e \<Rightarrow> Inl e
      | Inr d \<Rightarrow>
          Inr \<lparr>title = extract_title item, date = d,
               description = extract_description item, guid = extract_guid item,
               spotify_url = extract_spotify_url item,
               episode_id =
                 (case enclosure_id item of
                    Some x \<Rightarrow> Some x
                  | None \<Rightarrow>
                      (case extract_guid item of
                         None \<Rightarrow> None
                       | Some gs \<Rightarrow>
                           if gs = [] then None
                           else if sublist spotify_marker gs
                           then Some (text_before spotify_marker (text_after spotify_marker gs))
                           else re_search_episode gs)),
               image_url = extract_image_url item\<rparr>)"
  by (simp add: extract_episode_info_def extract_episode_id_value split: sum.splits)

lemma example_clock_sel:
  "strptime example_clock t f =
     (if t = ''Wed, 15 Jan 2026 10:00:00 GMT'' \<and> f = ''%a, %d %b %Y %H:%M:%S %Z''
      then Some \<lparr>year = 2026, month = 1, day = 15, hour = 10, minute = 0, second = 0\<rparr>
      else if t = ''Thu, 05 Mar 2026 23:30:00 +0100'' \<and> f = ''%a, %d %b %Y %H:%M:%S %z''
      then Some \<lparr>year = 2026, month = 3, day = 5, hour = 23, minute = 30, second = 0\<rparr>
      else None)"
  "strftime example_clock dt f =
     [digit (year dt div 1000), digit (year dt div 100), digit (year dt div 10),
      digit (year dt), CHR ''-'', digit (month dt div 10), digit (month dt), CHR ''-'',
      digit (day dt div 10), digit (day dt)]"
  "now example_clock =
     \<lparr>year = 2026, month = 11, day = 4, hour = 12, minute = 0, second = 0\<rparr>"
  by (simp_all add: example_clock_def)

lemmas example_eval =
  example_clock_sel digit_def item_with_def leaf_def el_find_def el_get_def
  extract_episode_info_value extract_date_def extract_title_def extract_guid_def
  extract_description_def extract_spotify_url_def extract_image_url_def enclosure_id_def
  text_or_empty_def episode_path_def spotify_marker_def text_before_def text_after_def
  content_encoded_def itunes_image_def sublist_Cons_right char_eval

lemma extract_raises_iff:
  "extract_episode_info clk item = Inl e \<longleftrightarrow>
     e = TypeError \<and> (\<exists>p. el_find item ''pubDate'' = Some p \<and> el_text p = None)"
  by (auto simp: extract_episode_info_value extract_date_def split: option.splits sum.splits)

lemma mkdir_parents_files: "mkdir_parents w disk p = Inr disk' \<Longrightarrow> files disk' = files disk"
  by (auto simp: mkdir_parents_def split: option.splits if_splits)

lemma write_file_files:
  "write_file w disk p content = Inr disk' \<Longrightarrow> files disk' = (files disk)(p \<mapsto> content)"
  by (auto simp: write_file_def split: option.splits if_splits)

lemma download_image_skipped:
  "url = [] \<or> http_get w url = Inl RequestException \<Longrightarrow>
     download_image w disk url p = (Inr False, disk)"
  by (auto simp: download_image_def except_request_def)

lemma path_div_name: "name \<noteq> [] \<Longrightarrow> path_div p name = p @ [name]"
  by (simp add: path_div_def)

lemma create_episode_post_written:
  assumes "create_episode_post w disk ep = (Inr d, disk')" and "title ep = Some t"
  shows "d = path_str (episode_dir t)
       \<and> files disk' (episode_dir t @ [''index.qmd'']) = Some (qmd_content t ep)"
  using assms
  by (auto simp: create_episode_post_def path_div_name
      dest!: write_file_files split: sum.splits prod.splits if_splits)

lemma create_episode_post_no_image:
  assumes "create_episode_post w disk ep = (Inr d, disk')" and "title ep = Some t"
      and "image_url ep = [] \<or> http_get w (image_url ep) = Inl RequestException"
  shows "files disk' = (files disk)(episode_dir t @ [''index.qmd''] \<mapsto> qmd_content t ep)"
  using assms download_image_skipped [OF assms(3)]
  by (auto simp: create_episode_post_def path_div_name
      dest!: write_file_files mkdir_parents_files split: sum.splits prod.splits if_splits)

lemma prefixes_not_extended: "p @ [x] \<notin> set (prefixes p)"
proof
  assume "p @ [x] \<in> set (prefixes p)"
  then have "prefix (p @ [x]) p" by (simp add: in_set_prefixes)
  then have "length (p @ [x]) \<le> length p" by (rule prefix_length_le)
  then show False by simp
qed

lemma create_episode_post_disk:
  assumes "create_episode_post w disk ep = (Inr d, disk')" and "title ep = Some t"
  shows "fault w (episode_dir t) = None
       \<and> fault w (episode_dir t @ [''index.qmd'']) = None
       \<and> files disk (episode_dir t) = None
       \<and> \<not> list_ex (\<lambda>q. files disk q \<noteq> None) (prefixes (episode_dir t))
       \<and> episode_dir t @ [''index.qmd''] \<notin> dirs disk
       \<and> dirs disk' = dirs disk \<union> set (prefixes (episode_dir t))
       \<and> (\<forall>q. files disk' q \<noteq> files disk q \<longrightarrow>
             q = episode_dir t @ [''index.qmd''] \<or> q = episode_dir t @ [''featured.png''])"
  using assms
  apply (simp add: create_episode_post_def path_div_name split: sum.splits prod.splits)
  apply (auto simp: mkdir_parents_def write_file_def download_image_def except_request_def
      path_div_name split: option.splits if_splits sum.splits prod.splits)
  done


lemma create_episode_post_again:
  assumes run: "create_episode_post w disk e1 = (Inr d, disk1)"
      and t1: "title e1 = Some t1" and t2: "title e2 = Some t2"
      and same: "episode_dir t2 = episode_dir t1"
      and img: "image_url e2 = [] \<or> http_get w (image_url e2) = Inl RequestException"
  shows "create_episode_post w disk1 e2 =
           (Inr d, disk1\<lparr>files := (files disk1)(episode_dir t1 @ [''index.qmd''] \<mapsto>
                                   qmd_content t2 e2)\<rparr>)"
proof -
  let ?dir = "episode_dir t1"
  let ?qmd = "?dir @ [''index.qmd'']"
  note facts = create_episode_post_disk [OF run t1]
  have d: "d = path_str ?dir"
    using create_episode_post_written [OF run t1] by simp
  have unchanged: "files disk1 q = files disk q"
    if "q \<noteq> ?qmd" "q \<noteq> ?dir @ [''featured.png'']" for q
    using facts that by blast
  have dir_file: "files disk1 ?dir = None"
    using facts unchanged [of ?dir] by simp
  have no_file: "\<not> list_ex (\<lambda>q. files disk1 q \<noteq> None) (prefixes ?dir)"
  proof -
    have "files disk1 q = files disk q" if "q \<in> set (prefixes ?dir)" for q
      using that prefixes_not_extended [of ?dir] unchanged [of q] by metis
    then show ?thesis
      using facts by (auto simp: list_ex_iff)
  qed
  have dirs1: "dirs disk1 \<union> set (prefixes ?dir) = dirs disk1"
    using facts by auto
  have mk: "mkdir_parents w disk1 ?dir = Inr disk1"
    using facts dir_file no_file dirs1 by (simp add: mkdir_parents_def)
  have dl: "download_image w disk1 (image_url e2) p = (Inr False, disk1)"
    if "image_url e2 \<noteq> []" for p
    using img that download_image_skipped [of "image_url e2" w disk1 p] by auto
  have "?qmd \<notin> dirs disk1"
    using facts prefixes_not_extended [of ?dir] by auto
  moreover have "?dir \<in> dirs disk1"
    using facts by (auto simp: in_set_prefixes)
  ultimately have wr: "write_file w disk1 ?qmd (qmd_content t2 e2) =
      Inr (disk1\<lparr>files := (files disk1)(?qmd \<mapsto> qmd_content t2 e2)\<rparr>)"
    using facts dir_file by (simp add: write_file_def)
  show ?thesis
    using t2 same mk dl wr d
    by (simp add: create_episode_post_def path_div_name)
qed



lemma main_loop_skip:
  "extract_episode_info clk item = Inr ep \<Longrightarrow> guid ep \<in> processed_episodes st \<Longrightarrow>
     main_loop clk w st (item # items) = main_loop clk w st items"
  by simp


subsection \<open>The slug generator\<close>












subsection \<open>The summary of a post\<close>

lemma strip_chars_fixed: "strip_chars P s = s \<Longrightarrow> dropWhile P s = s"
proof -
  assume a: "strip_chars P s = s"
  have "length (strip_chars P s) \<le> length (dropWhile P s)"
    using strip_chars_prefix [of P s] by (rule prefix_length_le)
  with a have "length s \<le> length (dropWhile P s)" by simp
  moreover have "length (takeWhile P s) + length (dropWhile P s) = length s"
    by (simp flip: length_append)
  ultimately have "length (takeWhile P s) = 0" by linarith
  then have "takeWhile P s = []" by (simp only: length_0_conv)
  then show ?thesis
    using takeWhile_dropWhile_id [of P s] by simp
qed

lemma dropWhile_take_fixed: "dropWhile P s = s \<Longrightarrow> dropWhile P (take n s) = take n s"
proof (cases s)
  case Nil
  then show ?thesis by simp
next
  case (Cons c cs)
  assume a: "dropWhile P s = s"
  have "\<not> P c"
  proof
    assume "P c"
    with a Cons have "dropWhile P cs = c # cs" by simp
    then have "length (c # cs) \<le> length cs"
      using length_dropWhile_le [of P cs] by simp
    then show False by simp
  qed
  with Cons show ?thesis by (cases n) simp_all
qed

lemma summary_trimmed:
  assumes "py_strip d = d"
  shows "summary d =
    (if length d > 200 then rev (dropWhile is_space (rev (take 200 d))) @ ''...'' else d)"
proof -
  have dw: "dropWhile is_space d = d"
    using assms strip_chars_fixed by (simp add: py_strip_def)
  then have "py_strip (take 200 d) = rev (dropWhile is_space (rev (take 200 d)))"
    by (simp add: py_strip_def strip_chars_def dropWhile_take_fixed)
  moreover have "\<not> length d > 200 \<Longrightarrow> take 200 d = d" by simp
  ultimately show ?thesis
    using assms by (auto simp: summary_def Let_def)
qed

lemma summary_untrimmed:
  assumes "py_strip d = d" "length d > 200" "\<not> is_space (d ! 199)"
  shows "summary d = take 200 d @ ''...''"
proof -
  have "take 200 d = take 199 d @ [d ! 199]"
    using assms(2) take_Suc_conv_app_nth [of 199 d] by simp
  then have "dropWhile is_space (rev (take 200 d)) = rev (take 200 d)"
    using assms(3) by simp
  then show ?thesis
    using summary_trimmed [OF assms(1)] assms(2) by simp
qed

lemma strip_replicate_a: "py_strip (replicate n CHR ''a'') = replicate n CHR ''a''"
  by (cases n) (simp_all add: char_eval replicate_append_same [symmetric] del: replicate_Suc)


text \<open>
  Claim C7, as the code has it. Let the description be cleaned, that is, without
  whitespace at its ends. When it is longer than 200 characters (250, say) the summary is
  its first 200 characters without their trailing whitespace, followed by \<open>...\<close>; this
  is exactly the first 200 characters and the ellipsis when the 200th character is not
  whitespace. When it has at most 200 characters (100, say) the summary is the whole
  description, with no ellipsis.
\<close>

theorem summary_truncation:
  assumes "py_strip d = d"
  shows "(200 < length d \<longrightarrow> summary d = rev (dropWhile is_space (rev (take 200 d))) @ ''...'')
      \<and> (200 < length d \<and> \<not> is_space (d ! 199) \<longrightarrow> summary d = take 200 d @ ''...'')
      \<and> (length d \<le> 200 \<longrightarrow> summary d = d)"
  using summary_trimmed [OF assms] summary_untrimmed [OF assms] by auto

theorem summary_truncation_witness:
  "summary (replicate 250 CHR ''a'') = replicate 200 CHR ''a'' @ ''...''
   \<and> summary (replicate 100 CHR ''a'') = replicate 100 CHR ''a''"
  using summary_truncation [OF strip_replicate_a, of 250]
        summary_truncation [OF strip_replicate_a, of 100]
  by (simp add: char_eval)


text \<open>
  Claim C7 as stated fails for a cleaned description of 250 characters whose 200th
  character is a space: the summary is the first 199 characters and the ellipsis, not
  the first 200 characters and the ellipsis.
\<close>

theorem summary_trim_counterexample:
  "length (replicate 199 CHR ''a'' @ '' '' @ replicate 50 CHR ''b'') = 250
   \<and> py_strip (replicate 199 CHR ''a'' @ '' '' @ replicate 50 CHR ''b'')
       = replicate 199 CHR ''a'' @ '' '' @ replicate 50 CHR ''b''
   \<and> summary (replicate 199 CHR ''a'' @ '' '' @ replicate 50 CHR ''b'')
       = replicate 199 CHR ''a'' @ ''...''
   \<and> summary (replicate 199 CHR ''a'' @ '' '' @ replicate 50 CHR ''b'')
       \<noteq> take 200 (replicate 199 CHR ''a'' @ '' '' @ replicate 50 CHR ''b'') @ ''...''"
  by code_simp

subsection \<open>The episode extractor\<close>

text \<open>
  Claim C2, as the code has it. The episode id is recovered in a fixed order. If the
  \<open>url\<close> of the enclosure has a match of \<open>/episode/<letters and digits>\<close>, the id is
  that run of letters and digits, whatever the guid says. Otherwise, if the guid is
  non-empty and contains \<open>spotify:episode:\<close>, the id is the second piece of the guid
  split at that marker: the text after the first occurrence of the marker, up to its
  next occurrence; it is the whole text after the marker when the marker does not occur
  again. Otherwise it is the match of the same pattern in the guid, and \<open>None\<close> when
  there is none or the guid is empty or \<open>None\<close>.
\<close>

theorem episode_id_priority:
  assumes "extract_episode_info clk item = Inr ep"
  shows "episode_id ep =
           (case enclosure_id item of
              Some x \<Rightarrow> Some x
            | None \<Rightarrow>
                (case guid ep of
                   None \<Rightarrow> None
                 | Some g \<Rightarrow>
                     if g = [] then None
                     else if sublist spotify_marker g
                     then Some (text_before spotify_marker (text_after spotify_marker g))
                     else re_search_episode g))
         \<and> (\<forall>g. guid ep = Some g \<and> sublist spotify_marker g \<longrightarrow>
               g = text_before spotify_marker g @ spotify_marker @ text_after spotify_marker g)
         \<and> (\<forall>g. guid ep = Some g \<and> \<not> sublist spotify_marker (text_after spotify_marker g) \<longrightarrow>
               text_before spotify_marker (text_after spotify_marker g)
                 = text_after spotify_marker g)"
proof -
  from assms have "episode_id ep =
           (case enclosure_id item of
              Some x \<Rightarrow> Some x
            | None \<Rightarrow>
                (case guid ep of
                   None \<Rightarrow> None
                 | Some g \<Rightarrow>
                     if g = [] then None
                     else if sublist spotify_marker g
                     then Some (text_before spotify_marker (text_after spotify_marker g))
                     else re_search_episode g))"
    by (auto simp: extract_episode_info_value split: sum.splits option.splits)
  moreover have "sublist spotify_marker g \<Longrightarrow>
      g = text_before spotify_marker g @ spotify_marker @ text_after spotify_marker g" for g
    using py_partition_decompose [of spotify_marker g] py_partition_found [of spotify_marker g]
    by (simp add: spotify_marker_nonempty)
  moreover have "\<not> sublist spotify_marker (text_after spotify_marker g) \<Longrightarrow>
      text_before spotify_marker (text_after spotify_marker g) = text_after spotify_marker g" for g
    by (simp add: text_before_absent spotify_marker_nonempty)
  ultimately show ?thesis by blast
qed

theorem episode_id_priority_witness:
  "(\<exists>ep. extract_episode_info example_clock
            (item_with [leaf ''guid'' (Some ''spotify:episode:ABC''),
               Element ''enclosure'' [(''url'', ''https://anchor.fm/s/1/play/episode/XYZ.mp3'')] None []])
          = Inr ep \<and> episode_id ep = Some ''XYZ'')
   \<and> (\<exists>ep. extract_episode_info example_clock
            (item_with [leaf ''guid'' (Some ''spotify:episode:ABC'')])
          = Inr ep \<and> episode_id ep = Some ''ABC'')"
proof -
  obtain ep1 where e1: "extract_episode_info example_clock
            (item_with [leaf ''guid'' (Some ''spotify:episode:ABC''),
               Element ''enclosure'' [(''url'', ''https://anchor.fm/s/1/play/episode/XYZ.mp3'')] None []])
          = Inr ep1"
    by (simp add: extract_episode_info_value extract_date_def item_with_def leaf_def el_find_def)
  obtain ep2 where e2: "extract_episode_info example_clock
            (item_with [leaf ''guid'' (Some ''spotify:episode:ABC'')]) = Inr ep2"
    by (simp add: extract_episode_info_value extract_date_def item_with_def leaf_def el_find_def)
  have g1: "guid ep1 = Some ''spotify:episode:ABC''"
    using e1 by (auto simp: example_eval)
  have g2: "guid ep2 = Some ''spotify:episode:ABC''"
    using e2 by (auto simp: example_eval)
  have "episode_id ep1 = Some ''XYZ''"
    using episode_id_priority [OF e1, THEN conjunct1] g1
    by (simp add: example_eval)
  moreover have "episode_id ep2 = Some ''ABC''"
    using episode_id_priority [OF e2, THEN conjunct1] g2
    by (simp add: example_eval)
  ultimately show ?thesis using e1 e2 by simp
qed


text \<open>
  Claim C2 as stated fails for a guid that holds the marker twice: the id is the text
  between the two markers, not the suffix after the marker.
\<close>

theorem guid_marker_twice_counterexample:
  "map_sum id episode_id
     (extract_episode_info example_clock
        (item_with [leaf ''guid'' (Some ''spotify:episode:Aspotify:episode:B'')]))
     = Inr (Some ''A'')
   \<and> text_after spotify_marker ''spotify:episode:Aspotify:episode:B'' = ''Aspotify:episode:B''"
  by (simp add: example_eval)


text \<open>
  The date of a record where the extraction returns one. For an item without a
  \<open>pubDate\<close> child it is the current date. For an item whose \<open>pubDate\<close> has a text, it
  is the calendar date of the text parsed with the named time zone format; failing that,
  with the numeric offset format; failing both, the current date.
\<close>

theorem publication_date:
  "(el_find item ''pubDate'' = None \<longrightarrow>
      (\<exists>ep. extract_episode_info clk item = Inr ep
         \<and> date ep = strftime clk (now clk) ''%Y-%m-%d''))
   \<and> (\<forall>p t. el_find item ''pubDate'' = Some p \<and> el_text p = Some t \<longrightarrow>
         (\<exists>ep. extract_episode_info clk item = Inr ep
            \<and> date ep =
                (case strptime clk t ''%a, %d %b %Y %H:%M:%S %Z'' of
                   Some dt \<Rightarrow> strftime clk dt ''%Y-%m-%d''
                 | None \<Rightarrow>
                     (case strptime clk t ''%a, %d %b %Y %H:%M:%S %z'' of
                        Some dt \<Rightarrow> strftime clk dt ''%Y-%m-%d''
                      | None \<Rightarrow> strftime clk (now clk) ''%Y-%m-%d''))))"
  by (auto simp: extract_episode_info_value extract_date_def split: option.splits)

theorem publication_date_witness:
  "(\<exists>ep. extract_episode_info example_clock (item_with [leaf ''title'' (Some ''No date'')]) = Inr ep
       \<and> date ep = ''2026-11-04'')
   \<and> (\<exists>ep. extract_episode_info example_clock
              (item_with [leaf ''pubDate'' (Some ''Wed, 15 Jan 2026 10:00:00 GMT'')]) = Inr ep
       \<and> date ep = ''2026-01-15'')
   \<and> (\<exists>ep. extract_episode_info example_clock
              (item_with [leaf ''pubDate'' (Some ''Thu, 05 Mar 2026 23:30:00 +0100'')]) = Inr ep
       \<and> date ep = ''2026-03-05'')
   \<and> (\<exists>ep. extract_episode_info example_clock
              (item_with [leaf ''pubDate'' (Some ''yesterday'')]) = Inr ep
       \<and> date ep = ''2026-11-04'')"
proof -
  have a: "el_find (item_with [leaf ''title'' (Some ''No date'')]) ''pubDate'' = None"
    by (simp add: item_with_def leaf_def el_find_def)
  have b: "el_find (item_with [leaf ''pubDate'' (Some t)]) ''pubDate'' = Some (leaf ''pubDate'' (Some t))
           \<and> el_text (leaf ''pubDate'' (Some t)) = Some t" for t
    by (simp add: item_with_def leaf_def el_find_def)
  note pd = publication_date [of _ example_clock]
  show ?thesis
    using pd [THEN conjunct1, rule_format, OF a]
      pd [THEN conjunct2, rule_format, OF b [of "''Wed, 15 Jan 2026 10:00:00 GMT''"]]
      pd [THEN conjunct2, rule_format, OF b [of "''Thu, 05 Mar 2026 23:30:00 +0100''"]]
      pd [THEN conjunct2, rule_format, OF b [of "''yesterday''"]]
    by (simp add: example_clock_sel digit_def char_of_eq_iff)
qed


text \<open>
  Claim C3 does not hold of the code: the fallback to the current date misses the
  \<open>pubDate\<close> element that is present without text. For the item
  \<open><item><title>Pilot</title><pubDate/><guid>g1</guid></item>\<close> the publication date
  cannot be parsed, yet the date step raises \<open>TypeError\<close> instead of yielding the current
  date, and the extraction returns no record at all.
\<close>

theorem empty_pubDate_no_fallback:
  "extract_date clk
     (item_with [leaf ''title'' (Some ''Pilot''), leaf ''pubDate'' None,
                 leaf ''guid'' (Some ''g1'')])
     = Inl TypeError
   \<and> extract_date clk
     (item_with [leaf ''title'' (Some ''Pilot''), leaf ''pubDate'' None,
                 leaf ''guid'' (Some ''g1'')])
     \<noteq> Inr (strftime clk (now clk) ''%Y-%m-%d'')
   \<and> (\<forall>ep. extract_episode_info clk
           (item_with [leaf ''title'' (Some ''Pilot''), leaf ''pubDate'' None,
                       leaf ''guid'' (Some ''g1'')])
         \<noteq> Inr ep)"
  by (simp add: extract_episode_info_value extract_date_def item_with_def leaf_def el_find_def)

text \<open>
  Claim C4 does not hold of the code: for the well-formed item \<open><item><pubDate/></item>\<close>
  the text of \<open>pubDate\<close> is \<open>None\<close>, \<open>datetime.strptime(None, ...)\<close> raises \<open>TypeError\<close>,
  and the handlers of lines 99 and 104 catch \<open>ValueError\<close> only. The extraction raises,
  and so does the run, which calls it outside its \<open>try\<close>.
\<close>

theorem empty_pubDate_raises:
  "extract_episode_info clk (item_with [leaf ''pubDate'' None]) = Inl TypeError
   \<and> main_loop clk w st (item_with [leaf ''pubDate'' None] # items) = Inl TypeError"
  by (simp add: extract_episode_info_value extract_date_def item_with_def leaf_def el_find_def)


text \<open>
  Claim C5 does not hold of the code: for \<open><item><title/></item>\<close> the title of the record
  is \<open>None\<close>, not the placeholder, and the renderer then raises \<open>AttributeError\<close> for any
  episode with such a title.
\<close>

theorem empty_title_is_none:
  "map_sum id title (extract_episode_info clk (item_with [leaf ''title'' None])) = Inr None
   \<and> fst (create_episode_post w disk (ep\<lparr>title := None\<rparr>)) = Inl AttributeError"
  by (simp add: extract_episode_info_value extract_date_def extract_title_def
      item_with_def leaf_def el_find_def create_episode_post_def)

subsection \<open>The post renderer\<close>

text \<open>Renders in the example world.\<close>

lemma example_world_sel:
  "http_get example_world url =
     (if url = ''https://img.example/cover.png'' then Inr ''PNG'' else Inl RequestException)"
  "fault example_world p = (if p = POSTS_DIR @ [''locked''] then Some PermissionError else None)"
  by (simp_all add: example_world_def)

lemmas render_eval =
  create_episode_post_def mkdir_parents_def write_file_def download_image_def
  except_request_def episode_dir_def path_div_def POSTS_DIR_def example_world_sel
  example_disk_def example_episode_def slugify_def char_eval

lemma pilot_dir: "episode_dir ''Pilot'' = [''content'', ''podcasts'', ''posts'', ''pilot'']"
  by (simp add: render_eval)



lemma render_pilot:
  assumes "title ep = Some ''Pilot''" and "image_url ep \<noteq> ''https://img.example/cover.png''"
  shows "create_episode_post example_world example_disk ep =
           (Inr ''content/podcasts/posts/pilot'',
            \<lparr>dirs = {[]} \<union> set (prefixes (episode_dir ''Pilot'')),
             files = [episode_dir ''Pilot'' @ [''index.qmd''] \<mapsto> qmd_content ''Pilot'' ep]\<rparr>)"
  using assms
  by (simp add: create_episode_post_def mkdir_parents_def write_file_def download_image_def
        except_request_def example_world_sel pilot_dir POSTS_DIR_def path_div_def
        example_disk_def)




text \<open>
  Claim C9. Whenever \<open>create_episode_post\<close> returns, the \<open>index.qmd\<close> it wrote starts with
  the opening line of the frontmatter, the title, the date and the line
  \<open>image: featured.png\<close>, whatever the image URL of the episode. When the image URL is empty
  or the download fails with a request exception, the call leaves \<open>featured.png\<close> in the
  directory of the post as it found it: absent, if it was absent. The content file then
  names an image file that was never written.
\<close>

theorem image_line_unconditional:
  assumes "create_episode_post w disk ep = (Inr d, disk')" and "title ep = Some t"
  shows "(\<exists>rest. files disk' (episode_dir t @ [''index.qmd'']) =
            Some (unlines [''---'', ''title: '' @ quoted t,
                           ''date: '' @ [CHR 0x27] @ date ep @ [CHR 0x27],
                           ''image: featured.png''] @ rest))
       \<and> (image_url ep = [] \<or> http_get w (image_url ep) = Inl RequestException \<longrightarrow>
            files disk' (episode_dir t @ [''featured.png''])
              = files disk (episode_dir t @ [''featured.png'']))"
proof -
  have "\<exists>rest. qmd_content t ep =
          unlines [''---'', ''title: '' @ quoted t,
                   ''date: '' @ [CHR 0x27] @ date ep @ [CHR 0x27],
                   ''image: featured.png''] @ rest"
    by (simp add: qmd_content_def unlines_def)
  then show ?thesis
    using create_episode_post_written [OF assms] create_episode_post_no_image [OF assms]
    by auto
qed

theorem image_line_unconditional_witness:
  "(\<exists>rest. files (snd (create_episode_post example_world example_disk
                          (example_episode ''Pilot'' ''g1'' [])))
              [''content'', ''podcasts'', ''posts'', ''pilot'', ''index.qmd''] =
            Some (unlines [''---'', ''title: '' @ quoted ''Pilot'',
                           ''date: '' @ [CHR 0x27] @ ''2026-01-15'' @ [CHR 0x27],
                           ''image: featured.png''] @ rest))
   \<and> files (snd (create_episode_post example_world example_disk
                    (example_episode ''Pilot'' ''g1'' [])))
        [''content'', ''podcasts'', ''posts'', ''pilot'', ''featured.png''] = None
   \<and> (\<exists>rest. files (snd (create_episode_post example_world example_disk
                          (example_episode ''Pilot'' ''g1'' ''https://img.example/gone.png'')))
              [''content'', ''podcasts'', ''posts'', ''pilot'', ''index.qmd''] =
            Some (unlines [''---'', ''title: '' @ quoted ''Pilot'',
                           ''date: '' @ [CHR 0x27] @ ''2026-01-15'' @ [CHR 0x27],
                           ''image: featured.png''] @ rest))
   \<and> files (snd (create_episode_post example_world example_disk
                    (example_episode ''Pilot'' ''g1'' ''https://img.example/gone.png'')))
        [''content'', ''podcasts'', ''posts'', ''pilot'', ''featured.png''] = None"
proof -
  have one: "(\<exists>rest. files (snd (create_episode_post example_world example_disk
                          (example_episode ''Pilot'' ''g1'' url)))
              [''content'', ''podcasts'', ''posts'', ''pilot'', ''index.qmd''] =
            Some (unlines [''---'', ''title: '' @ quoted ''Pilot'',
                           ''date: '' @ [CHR 0x27] @ ''2026-01-15'' @ [CHR 0x27],
                           ''image: featured.png''] @ rest))
   \<and> files (snd (create_episode_post example_world example_disk
                    (example_episode ''Pilot'' ''g1'' url)))
        [''content'', ''podcasts'', ''posts'', ''pilot'', ''featured.png''] = None"
    if url: "url = [] \<or> url = ''https://img.example/gone.png''" for url
  proof -
    let ?ep = "example_episode ''Pilot'' ''g1'' url"
    let ?r = "create_episode_post example_world example_disk ?ep"
    have t: "title ?ep = Some ''Pilot''" and d: "date ?ep = ''2026-01-15''"
      and u: "image_url ?ep \<noteq> ''https://img.example/cover.png''"
      and f: "image_url ?ep = [] \<or> http_get example_world (image_url ?ep) = Inl RequestException"
      using url by (auto simp: example_episode_def example_world_sel)
    have run: "?r = (Inr ''content/podcasts/posts/pilot'', snd ?r)"
      using render_pilot [OF t u] by simp
    show ?thesis
      using image_line_unconditional [OF run t] f d
      by (simp add: pilot_dir example_disk_def)
  qed
  show ?thesis
    using one [of "[]"] one [of "''https://img.example/gone.png''"] by simp
qed


text \<open>
  Claim C10. The directory of a post is a function of the title alone: the posts root
  extended by the first 50 characters of the slug of the title. Let a first episode be
  rendered, and let a second episode have a title with the same such prefix. If the call
  for the second episode returns, it returns the same directory, and \<open>index.qmd\<close> there,
  which held the content of the first episode, holds the content of the second. The file
  of the first episode raises no error: when the second episode needs no download (its
  image URL is empty or the request fails), the second call does return. The guids of the
  episodes play no part.
\<close>

theorem same_slug_overwrites:
  assumes "title e1 = Some t1" and "title e2 = Some t2"
      and "take 50 (slugify t1) = take 50 (slugify t2)"
      and "create_episode_post w disk e1 = (Inr d1, disk1)"
  shows "d1 = path_str (path_div POSTS_DIR (take 50 (slugify t1)))
       \<and> files disk1 (episode_dir t1 @ [''index.qmd'']) = Some (qmd_content t1 e1)
       \<and> (\<forall>d2 disk2. create_episode_post w disk1 e2 = (Inr d2, disk2) \<longrightarrow>
             d2 = d1
             \<and> files disk2 (episode_dir t1 @ [''index.qmd'']) = Some (qmd_content t2 e2))
       \<and> (image_url e2 = [] \<or> http_get w (image_url e2) = Inl RequestException \<longrightarrow>
             (\<exists>disk2. create_episode_post w disk1 e2 = (Inr d1, disk2)))"
proof -
  have same: "episode_dir t2 = episode_dir t1"
    using assms(3) by (simp add: episode_dir_def)
  have first: "d1 = path_str (episode_dir t1)
      \<and> files disk1 (episode_dir t1 @ [''index.qmd'']) = Some (qmd_content t1 e1)"
    using create_episode_post_written [OF assms(4) assms(1)] .
  have second: "d2 = d1
      \<and> files disk2 (episode_dir t1 @ [''index.qmd'']) = Some (qmd_content t2 e2)"
    if "create_episode_post w disk1 e2 = (Inr d2, disk2)" for d2 disk2
    using create_episode_post_written [OF that assms(2)] first same by simp
  have third: "\<exists>disk2. create_episode_post w disk1 e2 = (Inr d1, disk2)"
    if "image_url e2 = [] \<or> http_get w (image_url e2) = Inl RequestException"
    using create_episode_post_again [OF assms(4) assms(1) assms(2) same that] by blast
  show ?thesis
    using first second third by (simp add: episode_dir_def)
qed

theorem same_slug_overwrites_witness:
  "fst (create_episode_post example_world example_disk (example_episode ''Pilot'' ''g1'' []))
     = Inr ''content/podcasts/posts/pilot''
   \<and> fst (create_episode_post example_world
        (snd (create_episode_post example_world example_disk (example_episode ''Pilot'' ''g1'' [])))
        (example_episode ''Pilot!'' ''g2'' []))
     = Inr ''content/podcasts/posts/pilot''
   \<and> files (snd (create_episode_post example_world
        (snd (create_episode_post example_world example_disk (example_episode ''Pilot'' ''g1'' [])))
        (example_episode ''Pilot!'' ''g2'' [])))
        [''content'', ''podcasts'', ''posts'', ''pilot'', ''index.qmd'']
     = Some (qmd_content ''Pilot!'' (example_episode ''Pilot!'' ''g2'' []))
   \<and> guid (example_episode ''Pilot'' ''g1'' []) \<noteq> guid (example_episode ''Pilot!'' ''g2'' [])"
proof -
  let ?e1 = "example_episode ''Pilot'' ''g1'' []"
  let ?e2 = "example_episode ''Pilot!'' ''g2'' []"
  let ?r1 = "create_episode_post example_world example_disk ?e1"
  let ?r2 = "create_episode_post example_world (snd ?r1) ?e2"
  have t1: "title ?e1 = Some ''Pilot''"
    and u1: "image_url ?e1 \<noteq> ''https://img.example/cover.png''"
    and t2: "title ?e2 = Some ''Pilot!''" and u2: "image_url ?e2 = []"
    and g: "guid ?e1 \<noteq> guid ?e2"
    by (simp_all add: example_episode_def)
  have slug: "take 50 (slugify ''Pilot'') = take 50 (slugify ''Pilot!'')"
    by (simp add: slugify_def char_eval)
  have f1: "fst ?r1 = Inr ''content/podcasts/posts/pilot''"
    using render_pilot [OF t1 u1] by simp
  have run1: "?r1 = (Inr ''content/podcasts/posts/pilot'', snd ?r1)"
    using f1 by (simp add: prod_eq_iff)
  note both = same_slug_overwrites [OF t1 t2 slug run1]
  have "\<exists>disk2. ?r2 = (Inr ''content/podcasts/posts/pilot'', disk2)"
    using both [THEN conjunct2, THEN conjunct2, THEN conjunct2, rule_format, OF disjI1, OF u2] .
  then obtain disk2 where run2: "?r2 = (Inr ''content/podcasts/posts/pilot'', disk2)" ..
  then have f2: "fst ?r2 = Inr ''content/podcasts/posts/pilot''"
    by (simp only: fst_conv)
  have "files disk2 (episode_dir ''Pilot'' @ [''index.qmd''])
          = Some (qmd_content ''Pilot!'' ?e2)"
    using both [THEN conjunct2, THEN conjunct2, THEN conjunct1, rule_format, OF run2,
        THEN conjunct2] .
  moreover have "snd ?r2 = disk2"
    using run2 by (simp only: snd_conv)
  moreover have "episode_dir ''Pilot'' @ [''index.qmd'']
      = [''content'', ''podcasts'', ''posts'', ''pilot'', ''index.qmd'']"
    by (simp add: pilot_dir)
  ultimately have "files (snd ?r2) [''content'', ''podcasts'', ''posts'', ''pilot'', ''index.qmd'']
          = Some (qmd_content ''Pilot!'' ?e2)"
    by (simp only:)
  with f1 f2 g show ?thesis by (intro conjI)
qed

subsection \<open>The loop of the orchestrator\<close>







end
